theory Spec2Isabelle
  imports Main
begin

section \<open>Python values the conversation router works with\<close>

text \<open>
  The router \<^verbatim>\<open>src/api/src/routers/conversation.py\<close> is an async FastAPI handler.
  Its effects (tracing spans, log lines, adapter calls, metric writes, yielded chunks)
  are modelled as a list of events in program order; every function returns its value
  (or the exception it raises) together with the events it emitted.

  Exceptions are the instances of Python's \<^verbatim>\<open>Exception\<close> the code can meet:
  the \<^verbatim>\<open>KeyError\<close> of a dict subscript (it carries the key), the
  \<^verbatim>\<open>AttributeError\<close> of a missing attribute, and any exception a collaborator
  raises (it carries its message, what \<^verbatim>\<open>str(e)\<close> returns).
\<close>

datatype exn =
    KeyError string
  | AttributeError string
  | UpstreamError string

text \<open>\<^verbatim>\<open>str(n)\<close> of a non-negative integer, as the f-string of the chunk count needs it.\<close>

fun str_nat :: "nat \<Rightarrow> string" where
  "str_nat n =
     (if n < 10 then [char_of (48 + n)]
      else str_nat (n div 10) @ [char_of (48 + n mod 10)])"

declare str_nat.simps [simp del]

section \<open>Data model\<close>

text \<open>
  Modelled from the spec: the request schema \<^verbatim>\<open>ConversationIn\<close>
  (\<^verbatim>\<open>src.schemas.prompt_schema\<close>) is not among the sources. The handler reads the
  five fields below; a history entry is a role and content pair.
\<close>

type_synonym turn = "string \<times> string"

record ConversationIn =
  prompt_type :: string
  message :: string
  history :: "turn list"
  stream :: bool
  latest_prompt :: string

text \<open>
  The keyword arguments of the two calls of \<^verbatim>\<open>generate_response_non_stream\<close> and
  of the call of \<^verbatim>\<open>generate_response_stream\<close>. An argument the call site does not
  pass is \<^term>\<open>None\<close> (the adapter's default applies).
\<close>

record non_stream_call =
  ns_prompt :: string
  ns_model :: string
  ns_system_prompt :: "string option"
  ns_parse :: "bool option"
  ns_prompt_type :: "string option"
  ns_history :: "turn list option"

record stream_call =
  st_prompt :: string
  st_model :: string
  st_history :: "turn list"

text \<open>
  Modelled from the spec: the adapter's result types are declared outside the sources.
  A single-shot call returns either the parsed \<^verbatim>\<open>EnhancedPrompt\<close> object (one
  field, \<^verbatim>\<open>final_prompt\<close>) or a plain completion, a Python \<^verbatim>\<open>str\<close>. A streamed
  fragment is read through \<^verbatim>\<open>chunk.choices[0].delta.content\<close>, a string or
  \<^verbatim>\<open>None\<close>.
\<close>

datatype completion = EnhancedPrompt string | Text string

datatype fragment = Fragment (content: "string option")

text \<open>\<^verbatim>\<open>enhanced_prompt.final_prompt\<close>: a \<^verbatim>\<open>str\<close> has no such attribute.\<close>

fun final_prompt :: "completion \<Rightarrow> exn + string" where
  "final_prompt (EnhancedPrompt p) = Inr p"
| "final_prompt (Text t) =
     Inl (AttributeError ([CHR 0x27] @ ''str'' @ [CHR 0x27] @ '' object has no attribute ''
                          @ [CHR 0x27] @ ''final_prompt'' @ [CHR 0x27]))"

type_synonym labels = "(string \<times> string) list"

datatype event =
    SpanStart string "string option" "string list"
  | SpanEnd string
  | LogInfo string
  | LogError string
  | NonStreamCall non_stream_call
  | StreamCall stream_call
  | Yield string
  | CounterAdd int labels
  | HistogramRecord int labels

text \<open>
  \<^term>\<open>SpanStart name parent links\<close> is
  \<^verbatim>\<open>tracer.start_as_current_span(name, links=...)\<close> entering its \<^verbatim>\<open>with\<close>
  block. The call is given no \<^verbatim>\<open>context\<close> argument, so the OpenTelemetry API
  starts the span in the current context: \<^term>\<open>parent\<close> is the span whose
  \<^verbatim>\<open>with\<close> block encloses the call (\<^term>\<open>None\<close> for the outermost block of the
  handler, which starts in whatever context the handler was entered with), and inside the
  block the new span is the current one. \<^term>\<open>links\<close> names the spans whose context
  a \<^verbatim>\<open>trace.Link\<close> of the call refers to. \<^term>\<open>SpanEnd name\<close> is the block's
  exit, by return or by exception.
\<close>

text \<open>
  What the handler hands to the framework: the dict of the buffered path, or a
  \<^verbatim>\<open>StreamingResponse\<close> around the generator object, which has not started to run;
  the generator is the closure of \<^verbatim>\<open>stream_generator\<close> over \<^verbatim>\<open>final_prompt\<close>
  and \<^verbatim>\<open>history\<close>.
\<close>

datatype response =
    Dict "(string \<times> completion) list"
  | StreamingResponse (sr_final_prompt: string) (sr_history: "turn list") (media_type: string)

datatype http_exception = HTTPException (status_code: int) (detail: string)

text \<open>
  The collaborators imported from modules that are not among the sources, taken as
  parameters: the two prompt tables (a template is known only through
  \<^verbatim>\<open>.format(prompt=...)\<close>, which returns a string or raises), and the two adapter
  functions. A streaming call is a finite sequence of fragments, possibly ended by an
  exception raised in place of the next fragment. Within one request the two
  single-shot calls differ in their \<^verbatim>\<open>model\<close> argument, so a function of the
  arguments describes any adapter behaviour on that request.

  The last parameter is Python's built-in \<^verbatim>\<open>repr\<close> on strings, which the message
  of a \<^verbatim>\<open>KeyError\<close> is made of. Which characters beyond ASCII it escapes is decided
  by the interpreter's Unicode tables, so the model does not define it: every theorem
  holds for whatever function it is.
\<close>

record env =
  PROMPT_TEMPLATES :: "string \<Rightarrow> (string \<Rightarrow> exn + string) option"
  SYSTEM_PROMPTS :: "string \<Rightarrow> string option"
  generate_response_non_stream :: "non_stream_call \<Rightarrow> exn + completion"
  generate_response_stream :: "stream_call \<Rightarrow> fragment list \<times> exn option"
  py_repr :: "string \<Rightarrow> string"

text \<open>\<^verbatim>\<open>str(e)\<close>: a \<^verbatim>\<open>KeyError\<close> prints the repr of its key.\<close>

fun str_exn :: "env \<Rightarrow> exn \<Rightarrow> string" where
  "str_exn env (KeyError k) = py_repr env k"
| "str_exn env (AttributeError m) = m"
| "str_exn env (UpstreamError m) = m"

section \<open>The router\<close>

definition dq :: string where
  "dq = [CHR 0x22]"

definition enhance_prompt :: "env \<Rightarrow> string \<Rightarrow> string \<Rightarrow> (exn + string) \<times> event list" where
  "enhance_prompt env ptype latest =
     (let logged = [LogInfo (''Enhancing prompt with latest prompt: '' @ dq @ latest @ dq)] in
      case SYSTEM_PROMPTS env ptype of
        None \<Rightarrow> (Inl (KeyError ptype), logged)
      | Some system_prompt \<Rightarrow>
          (let call = \<lparr>ns_prompt = latest, ns_model = ''gpt-4o-mini'',
                       ns_system_prompt = Some system_prompt, ns_parse = Some True,
                       ns_prompt_type = Some ptype, ns_history = None\<rparr>
           in case generate_response_non_stream env call of
                Inl e \<Rightarrow> (Inl e, logged @ [NonStreamCall call])
              | Inr enhanced_prompt \<Rightarrow>
                  (final_prompt enhanced_prompt, logged @ [NonStreamCall call])))"

text \<open>
  The body of \<^verbatim>\<open>stream_generator\<close>'s loop: \<^verbatim>\<open>chunk_count\<close> is the loop's
  counter, a present content is yielded, and the count is logged after every fragment.
\<close>

fun stream_loop :: "nat \<Rightarrow> fragment list \<Rightarrow> event list" where
  "stream_loop chunk_count [] = []"
| "stream_loop chunk_count (chunk # rest) =
     (case content chunk of
        Some c \<Rightarrow>
          Yield c # LogInfo (''Streamed '' @ str_nat (chunk_count + 1) @ '' chunks.'')
            # stream_loop (chunk_count + 1) rest
      | None \<Rightarrow>
          LogInfo (''Streamed '' @ str_nat chunk_count @ '' chunks.'')
            # stream_loop chunk_count rest)"

text \<open>
  Running the generator to its end, as the framework does after the handler has
  returned: the events, and the exception that ended the iteration if the adapter raised.
\<close>

definition stream_generator :: "env \<Rightarrow> string \<Rightarrow> turn list \<Rightarrow> event list \<times> exn option" where
  "stream_generator env fprompt hist =
     (let call = \<lparr>st_prompt = fprompt, st_model = ''gemini-flash'', st_history = hist\<rparr>;
          (chunks, failure) = generate_response_stream env call
      in (StreamCall call # stream_loop 0 chunks, failure))"

definition handle_streaming_response :: "string \<Rightarrow> turn list \<Rightarrow> (exn + response) \<times> event list" where
  "handle_streaming_response fprompt hist =
     (Inr (StreamingResponse fprompt hist ''text/event-stream''), [])"

definition handle_non_streaming_response ::
    "env \<Rightarrow> string \<Rightarrow> turn list \<Rightarrow> (exn + response) \<times> event list" where
  "handle_non_streaming_response env fprompt hist =
     (let call = \<lparr>ns_prompt = fprompt, ns_model = ''gemini-flash'',
                  ns_system_prompt = None, ns_parse = None,
                  ns_prompt_type = None, ns_history = Some hist\<rparr>
      in case generate_response_non_stream env call of
           Inl e \<Rightarrow> (Inl e, [NonStreamCall call])
         | Inr r \<Rightarrow> (Inr (Dict [(''response'', r)]), [NonStreamCall call]))"

text \<open>
  Line 90, \<^verbatim>\<open>PROMPT_TEMPLATES[prompt_type].format(prompt=latest_prompt)\<close>: the
  subscript raises \<^verbatim>\<open>KeyError\<close> on a missing key, and \<^verbatim>\<open>format\<close> may raise.
\<close>

definition format_latest_prompt :: "env \<Rightarrow> ConversationIn \<Rightarrow> exn + string" where
  "format_latest_prompt env data =
     (case PROMPT_TEMPLATES env (prompt_type data) of
        None \<Rightarrow> Inl (KeyError (prompt_type data))
      | Some template \<Rightarrow> template (latest_prompt data))"

text \<open>
  Step 1 of the \<^verbatim>\<open>try\<close> block (lines 93 to 100): inside its span, linked to the
  root span, a first turn is enhanced and a later turn uses \<^verbatim>\<open>message\<close> as it is.
  The span is left on return and on exception alike.
\<close>

definition step_1_enhance_prompt ::
    "env \<Rightarrow> ConversationIn \<Rightarrow> string \<Rightarrow> (exn + string) \<times> event list" where
  "step_1_enhance_prompt env data formatted_latest_prompt =
     (let (r, ev) =
            (if history data = []
             then enhance_prompt env (prompt_type data) formatted_latest_prompt
             else (Inr (message data), []))
      in (r, [SpanStart ''step-1-enhance_prompt'' (Some ''processors'') [''processors'']] @ ev
             @ [SpanEnd ''step-1-enhance_prompt'']))"

text \<open>Step 2 (lines 105 to 112): inside its span, the response of the chosen delivery.\<close>

definition step_2_generate_response ::
    "env \<Rightarrow> ConversationIn \<Rightarrow> string \<Rightarrow> (exn + response) \<times> event list" where
  "step_2_generate_response env data fprompt =
     (let (r, ev) =
            (if stream data
             then handle_streaming_response fprompt (history data)
             else handle_non_streaming_response env fprompt (history data))
      in (r, [SpanStart ''step-2-generate_response'' (Some ''processors'') [''processors'']] @ ev
             @ [SpanEnd ''step-2-generate_response'']))"

text \<open>
  The \<^verbatim>\<open>try\<close> block of \<^verbatim>\<open>conversation_endpoint\<close>: the formatting, step 1, the
  log line, step 2; the first exception ends it.
\<close>

definition conversation_try :: "env \<Rightarrow> ConversationIn \<Rightarrow> (exn + response) \<times> event list" where
  "conversation_try env data =
     (case format_latest_prompt env data of
        Inl e \<Rightarrow> (Inl e, [])
      | Inr formatted_latest_prompt \<Rightarrow>
          (case step_1_enhance_prompt env data formatted_latest_prompt of
             (Inl e, ev1) \<Rightarrow> (Inl e, ev1)
           | (Inr fprompt, ev1) \<Rightarrow>
               (let (r2, ev2) = step_2_generate_response env data fprompt
                in (r2, ev1
                        @ [LogInfo (''Generating response with prompt: '' @ dq @ fprompt @ dq)]
                        @ ev2))))"

text \<open>
  The handler: the root span, the \<^verbatim>\<open>try\<close> block, the \<^verbatim>\<open>except Exception\<close>
  clause that logs and raises \<^verbatim>\<open>HTTPException(500)\<close>, and the \<^verbatim>\<open>finally\<close>
  clause that writes the two metrics.
\<close>

definition conversation_endpoint ::
    "env \<Rightarrow> ConversationIn \<Rightarrow> (http_exception + response) \<times> event list" where
  "conversation_endpoint env data =
     (let total_duration = (0::int);
          (r, ev) = conversation_try env data;
          (res, handled) =
            (case r of
               Inr resp \<Rightarrow> (Inr resp, [])
             | Inl e \<Rightarrow>
                 (Inl (HTTPException 500 (''An Error occurred: '' @ str_exn env e)),
                  [LogError (''Error in conversation endpoint: '' @ str_exn env e)]));
          label = [(''api'', ''/api/promptalchemy_conversation/conversation'')];
          cleanup = [CounterAdd 1 label, HistogramRecord total_duration label]
      in (res, [SpanStart ''processors'' None []] @ ev @ handled @ cleanup
               @ [SpanEnd ''processors'']))"

section \<open>Observations on a run\<close>

definition adapter_calls :: "event list \<Rightarrow> non_stream_call list" where
  "adapter_calls tr = [c. NonStreamCall c \<leftarrow> tr]"

definition stream_calls :: "event list \<Rightarrow> stream_call list" where
  "stream_calls tr = [c. StreamCall c \<leftarrow> tr]"

definition delivered :: "event list \<Rightarrow> string list" where
  "delivered tr = [c. Yield c \<leftarrow> tr]"

definition counter_adds :: "event list \<Rightarrow> (int \<times> labels) list" where
  "counter_adds tr = [(n, l). CounterAdd n l \<leftarrow> tr]"

definition histogram_records :: "event list \<Rightarrow> (int \<times> labels) list" where
  "histogram_records tr = [(v, l). HistogramRecord v l \<leftarrow> tr]"

text \<open>The spans a run starts, in order: name, parent and linked spans of each.\<close>

definition spans_started :: "event list \<Rightarrow> (string \<times> string option \<times> string list) list" where
  "spans_started tr = [(n, p, ls). SpanStart n p ls \<leftarrow> tr]"

definition route_label :: labels where
  "route_label = [(''api'', ''/api/promptalchemy_conversation/conversation'')]"

text \<open>
  The shapes of the three adapter calls, as the claims speak of them: the enhancement
  call (single-shot, the smaller model, the system prompt of the prompt type,
  \<^verbatim>\<open>parse=True\<close>), the buffered generation call and the streaming generation call
  (the primary model, the final prompt and the history, no system prompt).
\<close>

definition enhancement_call :: "string \<Rightarrow> string \<Rightarrow> string \<Rightarrow> non_stream_call" where
  "enhancement_call ptype system_prompt formatted =
     \<lparr>ns_prompt = formatted, ns_model = ''gpt-4o-mini'',
      ns_system_prompt = Some system_prompt, ns_parse = Some True,
      ns_prompt_type = Some ptype, ns_history = None\<rparr>"

definition generation_call :: "string \<Rightarrow> turn list \<Rightarrow> non_stream_call" where
  "generation_call fprompt hist =
     \<lparr>ns_prompt = fprompt, ns_model = ''gemini-flash'',
      ns_system_prompt = None, ns_parse = None,
      ns_prompt_type = None, ns_history = Some hist\<rparr>"

definition generation_stream_call :: "string \<Rightarrow> turn list \<Rightarrow> stream_call" where
  "generation_stream_call fprompt hist =
     \<lparr>st_prompt = fprompt, st_model = ''gemini-flash'', st_history = hist\<rparr>"

text \<open>The contents that are present in a fragment sequence, in the sequence's order.\<close>

definition present_contents :: "fragment list \<Rightarrow> string list" where
  "present_contents frs = map the (filter (\<lambda>c. c \<noteq> None) (map content frs))"


section \<open>Concrete runs\<close>

text \<open>
  A catalog with the one prompt type \<^verbatim>\<open>creative\<close> and adapters that answer; the
  enhancement call returns a parsed object, the generation call a plain completion, the
  streaming call three fragments of which the second has no content. The keys these runs
  look up are made of letters and underscores, and Python's \<^verbatim>\<open>repr\<close> writes such a
  key between single quotes: that is the \<^verbatim>\<open>repr\<close> of the concrete environments.
\<close>

definition demo_env :: env where
  "demo_env =
     \<lparr>PROMPT_TEMPLATES = [''creative'' \<mapsto> (\<lambda>p. Inr (''Rewrite: '' @ p))],
      SYSTEM_PROMPTS = [''creative'' \<mapsto> ''You are a poet''],
      generate_response_non_stream =
        (\<lambda>c. if ns_parse c = Some True then Inr (EnhancedPrompt (''Better '' @ ns_prompt c))
             else Inr (Text (''Answer to '' @ ns_prompt c))),
      generate_response_stream =
        (\<lambda>c. ([Fragment (Some ''Once''), Fragment None, Fragment (Some ''upon'')], None)),
      py_repr = (\<lambda>k. [CHR 0x27] @ k @ [CHR 0x27])\<rparr>"

text \<open>
  The same catalog with a primary model that is down: the buffered generation call
  raises, and the streaming call raises after two fragments.
\<close>

definition failing_env :: env where
  "failing_env =
     \<lparr>PROMPT_TEMPLATES = [''creative'' \<mapsto> (\<lambda>p. Inr (''Rewrite: '' @ p))],
      SYSTEM_PROMPTS = [''creative'' \<mapsto> ''You are a poet''],
      generate_response_non_stream =
        (\<lambda>c. if ns_parse c = Some True then Inr (EnhancedPrompt (''Better '' @ ns_prompt c))
             else Inl (UpstreamError ''timeout'')),
      generate_response_stream =
        (\<lambda>c. ([Fragment (Some ''Once''), Fragment (Some ''upon'')],
              Some (UpstreamError ''connection reset''))),
      py_repr = (\<lambda>k. [CHR 0x27] @ k @ [CHR 0x27])\<rparr>"

text \<open>The same catalog with a smaller model that is down: the enhancement call raises.\<close>

definition enhancer_down_env :: env where
  "enhancer_down_env =
     \<lparr>PROMPT_TEMPLATES = [''creative'' \<mapsto> (\<lambda>p. Inr (''Rewrite: '' @ p))],
      SYSTEM_PROMPTS = [''creative'' \<mapsto> ''You are a poet''],
      generate_response_non_stream =
        (\<lambda>c. if ns_parse c = Some True then Inl (UpstreamError ''rate limited'')
             else Inr (Text (''Answer to '' @ ns_prompt c))),
      generate_response_stream = (\<lambda>c. ([], None)),
      py_repr = (\<lambda>k. [CHR 0x27] @ k @ [CHR 0x27])\<rparr>"


definition raising_template_env :: env where
  "raising_template_env =
     demo_env\<lparr>PROMPT_TEMPLATES := [''creative'' \<mapsto> (\<lambda>p. Inl (KeyError ''topic''))]\<rparr>"

definition first_turn :: ConversationIn where
  "first_turn =
     \<lparr>prompt_type = ''creative'', message = ''write a poem'', history = [], stream = False,
      latest_prompt = ''write a poem''\<rparr>"

definition later_turn :: ConversationIn where
  "later_turn =
     \<lparr>prompt_type = ''creative'', message = ''tell me more'',
      history = [(''user'', ''hi'')], stream = True, latest_prompt = ''write a poem''\<rparr>"


definition unknown_later_turn :: ConversationIn where
  "unknown_later_turn =
     \<lparr>prompt_type = ''unknown_key'', message = ''tell me more'',
      history = [(''user'', ''hi'')], stream = True, latest_prompt = ''write a poem''\<rparr>"

definition unknown_type_turn :: ConversationIn where
  "unknown_type_turn =
     \<lparr>prompt_type = ''unknown_key'', message = ''write a poem'', history = [], stream = False,
      latest_prompt = ''write a poem''\<rparr>"

section \<open>Lemmas about the stages\<close>

subsection \<open>Observations distribute over a trace\<close>

lemma adapter_calls_simps [simp]:
  "adapter_calls [] = []"
  "adapter_calls (xs @ ys) = adapter_calls xs @ adapter_calls ys"
  "adapter_calls (ev # xs) = (case ev of NonStreamCall c \<Rightarrow> [c] | _ \<Rightarrow> []) @ adapter_calls xs"
  by (simp_all add: adapter_calls_def)

lemma stream_calls_simps [simp]:
  "stream_calls [] = []"
  "stream_calls (xs @ ys) = stream_calls xs @ stream_calls ys"
  "stream_calls (ev # xs) = (case ev of StreamCall c \<Rightarrow> [c] | _ \<Rightarrow> []) @ stream_calls xs"
  by (simp_all add: stream_calls_def)

lemma delivered_simps [simp]:
  "delivered [] = []"
  "delivered (xs @ ys) = delivered xs @ delivered ys"
  "delivered (ev # xs) = (case ev of Yield c \<Rightarrow> [c] | _ \<Rightarrow> []) @ delivered xs"
  by (simp_all add: delivered_def)

lemma counter_adds_simps [simp]:
  "counter_adds [] = []"
  "counter_adds (xs @ ys) = counter_adds xs @ counter_adds ys"
  "counter_adds (ev # xs) = (case ev of CounterAdd n l \<Rightarrow> [(n, l)] | _ \<Rightarrow> []) @ counter_adds xs"
  by (simp_all add: counter_adds_def)

lemma histogram_records_simps [simp]:
  "histogram_records [] = []"
  "histogram_records (xs @ ys) = histogram_records xs @ histogram_records ys"
  "histogram_records (ev # xs)
     = (case ev of HistogramRecord v l \<Rightarrow> [(v, l)] | _ \<Rightarrow> []) @ histogram_records xs"
  by (simp_all add: histogram_records_def)

lemma spans_started_simps [simp]:
  "spans_started [] = []"
  "spans_started (xs @ ys) = spans_started xs @ spans_started ys"
  "spans_started (ev # xs)
     = (case ev of SpanStart n p ls \<Rightarrow> [(n, p, ls)] | _ \<Rightarrow> []) @ spans_started xs"
  by (simp_all add: spans_started_def)

subsection \<open>The stages, one by one\<close>

lemma enhance_prompt_fst:
  "fst (enhance_prompt env pt f)
     = (case SYSTEM_PROMPTS env pt of
          None \<Rightarrow> Inl (KeyError pt)
        | Some sp \<Rightarrow>
            (case generate_response_non_stream env (enhancement_call pt sp f) of
               Inl e \<Rightarrow> Inl e
             | Inr r \<Rightarrow> final_prompt r))"
  by (simp add: enhance_prompt_def enhancement_call_def Let_def split: option.splits sum.splits)

lemma enhance_prompt_obs:
  "adapter_calls (snd (enhance_prompt env pt f))
     = (case SYSTEM_PROMPTS env pt of None \<Rightarrow> [] | Some sp \<Rightarrow> [enhancement_call pt sp f])"
  "spans_started (snd (enhance_prompt env pt f)) = []"
  "counter_adds (snd (enhance_prompt env pt f)) = []"
  "histogram_records (snd (enhance_prompt env pt f)) = []"
  by (simp_all add: enhance_prompt_def enhancement_call_def Let_def split: option.splits sum.splits)

lemma non_streaming_fst:
  "fst (handle_non_streaming_response env fp h)
     = (case generate_response_non_stream env (generation_call fp h) of
          Inl e \<Rightarrow> Inl e
        | Inr r \<Rightarrow> Inr (Dict [(''response'', r)]))"
  by (simp add: handle_non_streaming_response_def generation_call_def Let_def split: sum.splits)

lemma non_streaming_obs:
  "adapter_calls (snd (handle_non_streaming_response env fp h)) = [generation_call fp h]"
  "spans_started (snd (handle_non_streaming_response env fp h)) = []"
  "counter_adds (snd (handle_non_streaming_response env fp h)) = []"
  "histogram_records (snd (handle_non_streaming_response env fp h)) = []"
  by (simp_all add: handle_non_streaming_response_def generation_call_def Let_def split: sum.splits)

lemma step_1_fst:
  "fst (step_1_enhance_prompt env data f)
     = (if history data = [] then fst (enhance_prompt env (prompt_type data) f)
        else Inr (message data))"
  by (simp add: step_1_enhance_prompt_def split: prod.splits)

lemma step_1_obs:
  "adapter_calls (snd (step_1_enhance_prompt env data f))
     = (if history data = [] then adapter_calls (snd (enhance_prompt env (prompt_type data) f))
        else [])"
  "spans_started (snd (step_1_enhance_prompt env data f))
     = [(''step-1-enhance_prompt'', Some ''processors'', [''processors''])]"
  "counter_adds (snd (step_1_enhance_prompt env data f)) = []"
  "histogram_records (snd (step_1_enhance_prompt env data f)) = []"
  using enhance_prompt_obs [of env "prompt_type data" f]
  by (auto simp: step_1_enhance_prompt_def split: prod.splits)

lemma step_2_fst:
  "fst (step_2_generate_response env data fp)
     = (if stream data then Inr (StreamingResponse fp (history data) ''text/event-stream'')
        else fst (handle_non_streaming_response env fp (history data)))"
  by (simp add: step_2_generate_response_def handle_streaming_response_def split: prod.splits)

lemma step_2_obs:
  "adapter_calls (snd (step_2_generate_response env data fp))
     = (if stream data then [] else [generation_call fp (history data)])"
  "spans_started (snd (step_2_generate_response env data fp))
     = [(''step-2-generate_response'', Some ''processors'', [''processors''])]"
  "counter_adds (snd (step_2_generate_response env data fp)) = []"
  "histogram_records (snd (step_2_generate_response env data fp)) = []"
  using non_streaming_obs [of env fp "history data"]
  by (auto simp: step_2_generate_response_def handle_streaming_response_def split: prod.splits)

lemma conversation_try_alt:
  "conversation_try env data
     = (case format_latest_prompt env data of
          Inl e \<Rightarrow> (Inl e, [])
        | Inr f \<Rightarrow>
            (case fst (step_1_enhance_prompt env data f) of
               Inl e \<Rightarrow> (Inl e, snd (step_1_enhance_prompt env data f))
             | Inr fp \<Rightarrow>
                 (fst (step_2_generate_response env data fp),
                  snd (step_1_enhance_prompt env data f)
                  @ [LogInfo (''Generating response with prompt: '' @ dq @ fp @ dq)]
                  @ snd (step_2_generate_response env data fp))))"
  by (simp add: conversation_try_def split: sum.splits prod.splits)


lemma conversation_try_fst:
  "fst (conversation_try env data)
     = (case format_latest_prompt env data of
          Inl e \<Rightarrow> Inl e
        | Inr f \<Rightarrow>
            (case fst (step_1_enhance_prompt env data f) of
               Inl e \<Rightarrow> Inl e
             | Inr fp \<Rightarrow> fst (step_2_generate_response env data fp)))"
  by (simp add: conversation_try_alt split: sum.splits)

lemma conversation_try_obs:
  "adapter_calls (snd (conversation_try env data))
     = (case format_latest_prompt env data of
          Inl e \<Rightarrow> []
        | Inr f \<Rightarrow>
            adapter_calls (snd (step_1_enhance_prompt env data f))
            @ (case fst (step_1_enhance_prompt env data f) of
                 Inl e \<Rightarrow> []
               | Inr fp \<Rightarrow> adapter_calls (snd (step_2_generate_response env data fp))))"
  "spans_started (snd (conversation_try env data))
     = (case format_latest_prompt env data of
          Inl e \<Rightarrow> []
        | Inr f \<Rightarrow>
            (''step-1-enhance_prompt'', Some ''processors'', [''processors''])
            # (case fst (step_1_enhance_prompt env data f) of
                 Inl e \<Rightarrow> []
               | Inr fp \<Rightarrow> [(''step-2-generate_response'', Some ''processors'', [''processors''])]))"
  "counter_adds (snd (conversation_try env data)) = []"
  "histogram_records (snd (conversation_try env data)) = []"
  by (simp_all add: conversation_try_alt step_1_obs step_2_obs split: sum.splits)

lemma conversation_endpoint_alt:
  "conversation_endpoint env data
     = ((case fst (conversation_try env data) of
           Inl e \<Rightarrow> Inl (HTTPException 500 (''An Error occurred: '' @ str_exn env e))
         | Inr resp \<Rightarrow> Inr resp),
        [SpanStart ''processors'' None []] @ snd (conversation_try env data)
        @ (case fst (conversation_try env data) of
             Inl e \<Rightarrow> [LogError (''Error in conversation endpoint: '' @ str_exn env e)]
           | Inr resp \<Rightarrow> [])
        @ [CounterAdd 1 route_label, HistogramRecord 0 route_label, SpanEnd ''processors''])"
  by (simp add: conversation_endpoint_def route_label_def Let_def split: sum.splits prod.splits)

lemma conversation_endpoint_fst:
  "fst (conversation_endpoint env data)
     = (case fst (conversation_try env data) of
          Inl e \<Rightarrow> Inl (HTTPException 500 (''An Error occurred: '' @ str_exn env e))
        | Inr resp \<Rightarrow> Inr resp)"
  by (simp add: conversation_endpoint_alt)

lemma conversation_endpoint_obs:
  "adapter_calls (snd (conversation_endpoint env data))
     = adapter_calls (snd (conversation_try env data))"
  "spans_started (snd (conversation_endpoint env data))
     = (''processors'', None, []) # spans_started (snd (conversation_try env data))"
  "counter_adds (snd (conversation_endpoint env data)) = [(1, route_label)]"
  "histogram_records (snd (conversation_endpoint env data)) = [(0, route_label)]"
  by (simp_all add: conversation_endpoint_alt conversation_try_obs split: sum.splits)

lemma stream_loop_delivered: "delivered (stream_loop n frs) = present_contents frs"
  by (induction frs arbitrary: n) (auto simp: present_contents_def split: option.splits)

lemma stream_loop_obs:
  "stream_calls (stream_loop n frs) = []"
  "adapter_calls (stream_loop n frs) = []"
  "counter_adds (stream_loop n frs) = []"
  "histogram_records (stream_loop n frs) = []"
  by (induction frs arbitrary: n) (auto split: option.splits)

lemma stream_generator_alt:
  "stream_generator env fp h
     = (StreamCall (generation_stream_call fp h)
          # stream_loop 0 (fst (generate_response_stream env (generation_stream_call fp h))),
        snd (generate_response_stream env (generation_stream_call fp h)))"
  by (simp add: stream_generator_def generation_stream_call_def Let_def split: prod.splits)

lemmas endpoint_simps =
  conversation_endpoint_fst conversation_endpoint_obs conversation_try_fst conversation_try_obs
  step_1_fst step_1_obs step_2_fst step_2_obs enhance_prompt_fst enhance_prompt_obs
  non_streaming_fst

lemma handler_ignores_stream_adapter:
  "conversation_endpoint (env\<lparr>generate_response_stream := g\<rparr>) data
     = conversation_endpoint env data"
proof -
  let ?env = "env\<lparr>generate_response_stream := g\<rparr>"
  have e: "enhance_prompt ?env pt f = enhance_prompt env pt f" for pt f
    by (simp add: enhance_prompt_def Let_def split: option.splits)
  have n: "handle_non_streaming_response ?env fp h = handle_non_streaming_response env fp h"
    for fp h
    by (simp add: handle_non_streaming_response_def Let_def)
  have f: "format_latest_prompt ?env data = format_latest_prompt env data"
    by (simp add: format_latest_prompt_def)
  have s1: "step_1_enhance_prompt ?env data x = step_1_enhance_prompt env data x" for x
    by (simp add: step_1_enhance_prompt_def e cong: if_cong)
  have s2: "step_2_generate_response ?env data x = step_2_generate_response env data x" for x
    by (simp add: step_2_generate_response_def n cong: if_cong)
  have t: "conversation_try ?env data = conversation_try env data"
    by (simp add: conversation_try_def f s1 s2 cong: sum.case_cong)
  have x: "str_exn ?env e = str_exn env e" for e
    by (cases e) simp_all
  show ?thesis
    by (simp add: conversation_endpoint_alt t x cong: sum.case_cong)
qed

section \<open>Concrete runs, evaluated\<close>

lemma first_turn_fields:
  "history first_turn = []"
  "\<not> stream first_turn"
  "prompt_type first_turn = ''creative''"
  by (simp_all add: first_turn_def)

lemma demo_first_turn_run:
  "format_latest_prompt demo_env first_turn = Inr ''Rewrite: write a poem''"
  "SYSTEM_PROMPTS demo_env ''creative'' = Some ''You are a poet''"
  "generate_response_non_stream demo_env
     (enhancement_call ''creative'' ''You are a poet'' ''Rewrite: write a poem'')
     = Inr (EnhancedPrompt ''Better Rewrite: write a poem'')"
  "generate_response_non_stream demo_env (generation_call ''Better Rewrite: write a poem'' [])
     = Inr (Text ''Answer to Better Rewrite: write a poem'')"
  by (simp_all add: first_turn_def demo_env_def format_latest_prompt_def enhancement_call_def
      generation_call_def)

lemma failing_first_turn_run:
  "format_latest_prompt failing_env first_turn = Inr ''Rewrite: write a poem''"
  "SYSTEM_PROMPTS failing_env ''creative'' = Some ''You are a poet''"
  "generate_response_non_stream failing_env
     (enhancement_call ''creative'' ''You are a poet'' ''Rewrite: write a poem'')
     = Inr (EnhancedPrompt ''Better Rewrite: write a poem'')"
  "generate_response_non_stream failing_env (generation_call ''Better Rewrite: write a poem'' [])
     = Inl (UpstreamError ''timeout'')"
  by (simp_all add: first_turn_def failing_env_def format_latest_prompt_def enhancement_call_def
      generation_call_def)

lemma enhancer_down_first_turn_run:
  "format_latest_prompt enhancer_down_env first_turn = Inr ''Rewrite: write a poem''"
  "SYSTEM_PROMPTS enhancer_down_env ''creative'' = Some ''You are a poet''"
  "generate_response_non_stream enhancer_down_env
     (enhancement_call ''creative'' ''You are a poet'' ''Rewrite: write a poem'')
     = Inl (UpstreamError ''rate limited'')"
  by (simp_all add: first_turn_def enhancer_down_env_def format_latest_prompt_def
      enhancement_call_def)

lemma later_turn_fields:
  "history later_turn = [(''user'', ''hi'')]"
  "stream later_turn"
  "message later_turn = ''tell me more''"
  by (simp_all add: later_turn_def)

lemma later_turn_run:
  "format_latest_prompt demo_env later_turn = Inr ''Rewrite: write a poem''"
  "format_latest_prompt failing_env later_turn = Inr ''Rewrite: write a poem''"
  "generate_response_stream failing_env
     (generation_stream_call ''tell me more'' [(''user'', ''hi'')])
     = ([Fragment (Some ''Once''), Fragment (Some ''upon'')],
        Some (UpstreamError ''connection reset''))"
  "generate_response_stream demo_env
     (generation_stream_call ''tell me more'' [(''user'', ''hi'')])
     = ([Fragment (Some ''Once''), Fragment None, Fragment (Some ''upon'')], None)"
  by (simp_all add: later_turn_def demo_env_def failing_env_def format_latest_prompt_def
      generation_stream_call_def)

lemma unknown_type_turn_run:
  "history unknown_type_turn = []"
  "prompt_type unknown_type_turn = ''unknown_key''"
  "PROMPT_TEMPLATES demo_env ''unknown_key'' = None"
  "format_latest_prompt demo_env unknown_type_turn = Inl (KeyError ''unknown_key'')"
  by (simp_all add: unknown_type_turn_def demo_env_def format_latest_prompt_def)

lemma repr_unknown_key:
  "py_repr demo_env ''unknown_key'' = [CHR 0x27] @ ''unknown_key'' @ [CHR 0x27]"
  by (simp add: demo_env_def)

lemma unknown_later_turn_run:
  "history unknown_later_turn = [(''user'', ''hi'')]"
  "prompt_type unknown_later_turn = ''unknown_key''"
  "format_latest_prompt demo_env unknown_later_turn = Inl (KeyError ''unknown_key'')"
  by (simp_all add: unknown_later_turn_def demo_env_def format_latest_prompt_def)



lemma raising_template_run:
  "format_latest_prompt raising_template_env later_turn = Inl (KeyError ''topic'')"
  "py_repr raising_template_env ''topic'' = [CHR 0x27] @ ''topic'' @ [CHR 0x27]"
  by (simp_all add: raising_template_env_def demo_env_def later_turn_def format_latest_prompt_def)

lemma demo_first_turn_result:
  "fst (conversation_endpoint demo_env first_turn)
     = Inr (Dict [(''response'', Text ''Answer to Better Rewrite: write a poem'')])"
  "adapter_calls (snd (conversation_endpoint demo_env first_turn))
     = [enhancement_call ''creative'' ''You are a poet'' ''Rewrite: write a poem'',
        generation_call ''Better Rewrite: write a poem'' []]"
  "spans_started (snd (conversation_endpoint demo_env first_turn))
     = [(''processors'', None, []), (''step-1-enhance_prompt'', Some ''processors'', [''processors'']),
        (''step-2-generate_response'', Some ''processors'', [''processors''])]"
  by (simp_all add: endpoint_simps first_turn_fields demo_first_turn_run)

lemma failing_first_turn_result:
  "fst (conversation_endpoint failing_env first_turn)
     = Inl (HTTPException 500 ''An Error occurred: timeout'')"
  "adapter_calls (snd (conversation_endpoint failing_env first_turn))
     = [enhancement_call ''creative'' ''You are a poet'' ''Rewrite: write a poem'',
        generation_call ''Better Rewrite: write a poem'' []]"
  by (simp_all add: endpoint_simps first_turn_fields failing_first_turn_run)

lemma enhancer_down_first_turn_result:
  "fst (conversation_endpoint enhancer_down_env first_turn)
     = Inl (HTTPException 500 ''An Error occurred: rate limited'')"
  "adapter_calls (snd (conversation_endpoint enhancer_down_env first_turn))
     = [enhancement_call ''creative'' ''You are a poet'' ''Rewrite: write a poem'']"
  by (simp_all add: endpoint_simps first_turn_fields enhancer_down_first_turn_run)

lemma later_turn_result:
  "fst (conversation_endpoint demo_env later_turn)
     = Inr (StreamingResponse ''tell me more'' [(''user'', ''hi'')] ''text/event-stream'')"
  "adapter_calls (snd (conversation_endpoint demo_env later_turn)) = []"
  "fst (conversation_endpoint failing_env later_turn)
     = Inr (StreamingResponse ''tell me more'' [(''user'', ''hi'')] ''text/event-stream'')"
  by (simp_all add: endpoint_simps later_turn_fields later_turn_run)


lemma unknown_type_turn_result:
  "fst (conversation_endpoint demo_env unknown_type_turn)
     = Inl (HTTPException 500
             (''An Error occurred: '' @ [CHR 0x27] @ ''unknown_key'' @ [CHR 0x27]))"
  "adapter_calls (snd (conversation_endpoint demo_env unknown_type_turn)) = []"
  "spans_started (snd (conversation_endpoint demo_env unknown_type_turn))
     = [(''processors'', None, [])]"
  by (simp_all add: endpoint_simps unknown_type_turn_run repr_unknown_key)

section \<open>The claims\<close>

text \<open>
  Claim C1. On a first turn (the history is empty), with the catalog template formatted
  with the caller's latest prompt and the system instruction resolved for the prompt
  type, the enhancement call (single-shot, the smaller model, \<^verbatim>\<open>parse=True\<close>, that
  system instruction, on the formatted latest prompt) is made exactly once; the result
  of the enhancement is the \<^verbatim>\<open>final_prompt\<close> of what that call returns; and that
  result is the prompt of the generation stage: of the buffered generation call, or of
  the streaming response.
\<close>

theorem first_turn_enhanced_once:
  assumes "history data = []"
    and "format_latest_prompt env data = Inr formatted"
    and "SYSTEM_PROMPTS env (prompt_type data) = Some sp"
  shows "count_list (adapter_calls (snd (conversation_endpoint env data)))
           (enhancement_call (prompt_type data) sp formatted) = 1
       \<and> fst (enhance_prompt env (prompt_type data) formatted)
           = (case generate_response_non_stream env
                     (enhancement_call (prompt_type data) sp formatted) of
                Inl e \<Rightarrow> Inl e | Inr r \<Rightarrow> final_prompt r)
       \<and> adapter_calls (snd (conversation_endpoint env data))
           = (case fst (enhance_prompt env (prompt_type data) formatted) of
                Inl e \<Rightarrow> [enhancement_call (prompt_type data) sp formatted]
              | Inr fp \<Rightarrow>
                  if stream data then [enhancement_call (prompt_type data) sp formatted]
                  else [enhancement_call (prompt_type data) sp formatted,
                        generation_call fp (history data)])
       \<and> (\<forall>fp. fst (enhance_prompt env (prompt_type data) formatted) = Inr fp \<and> stream data
            \<longrightarrow> fst (conversation_endpoint env data)
                  = Inr (StreamingResponse fp (history data) ''text/event-stream''))"
proof -
  have ne: "\<And>fp h. generation_call fp h \<noteq> enhancement_call (prompt_type data) sp formatted"
    by (simp add: generation_call_def enhancement_call_def)
  show ?thesis
    using assms ne by (auto simp: endpoint_simps split: sum.splits)
qed

theorem first_turn_enhanced_once_witness:
  "history first_turn = []
   \<and> format_latest_prompt demo_env first_turn = Inr ''Rewrite: write a poem''
   \<and> SYSTEM_PROMPTS demo_env (prompt_type first_turn) = Some ''You are a poet''
   \<and> count_list (adapter_calls (snd (conversation_endpoint demo_env first_turn)))
        (enhancement_call (prompt_type first_turn) ''You are a poet'' ''Rewrite: write a poem'')
       = 1
   \<and> adapter_calls (snd (conversation_endpoint demo_env first_turn))
       = [enhancement_call ''creative'' ''You are a poet'' ''Rewrite: write a poem'',
          generation_call ''Better Rewrite: write a poem'' []]"
proof -
  have h1: "history first_turn = []"
    and h2: "format_latest_prompt demo_env first_turn = Inr ''Rewrite: write a poem''"
    and h3: "SYSTEM_PROMPTS demo_env (prompt_type first_turn) = Some ''You are a poet''"
    by (simp_all add: first_turn_fields demo_first_turn_run)
  have "count_list (adapter_calls (snd (conversation_endpoint demo_env first_turn)))
        (enhancement_call (prompt_type first_turn) ''You are a poet'' ''Rewrite: write a poem'')
       = 1"
    using first_turn_enhanced_once [OF h1 h2 h3] by blast
  with h1 h2 h3 demo_first_turn_result(2) show ?thesis by blast
qed

text \<open>
  Claim C2. For every request with a non-empty history the enhancement call is never
  made: every single-shot adapter call of the run is the generation call on
  \<^verbatim>\<open>message\<close> and the history, there is at most one, and a streaming response
  closes over \<^verbatim>\<open>message\<close> as its final prompt. When the template formats, the
  generation stage is reached with \<^verbatim>\<open>message\<close> verbatim.
\<close>

theorem later_turn_uses_message:
  assumes "history data \<noteq> []"
  shows "(\<forall>c \<in> set (adapter_calls (snd (conversation_endpoint env data))).
            c = generation_call (message data) (history data))
       \<and> (\<forall>pt sp f. enhancement_call pt sp f
                      \<notin> set (adapter_calls (snd (conversation_endpoint env data))))
       \<and> length (adapter_calls (snd (conversation_endpoint env data))) \<le> 1
       \<and> (\<forall>fp h m. fst (conversation_endpoint env data) = Inr (StreamingResponse fp h m)
            \<longrightarrow> fp = message data \<and> h = history data)
       \<and> (\<forall>f. format_latest_prompt env data = Inr f \<longrightarrow>
            (if stream data
             then fst (conversation_endpoint env data)
                    = Inr (StreamingResponse (message data) (history data) ''text/event-stream'')
             else adapter_calls (snd (conversation_endpoint env data))
                    = [generation_call (message data) (history data)]))"
proof -
  have ne: "\<And>pt sp f fp h. enhancement_call pt sp f \<noteq> generation_call fp h"
    by (simp add: generation_call_def enhancement_call_def)
  show ?thesis
    using assms ne by (auto simp: endpoint_simps split: sum.splits)
qed

theorem later_turn_uses_message_witness:
  "history later_turn \<noteq> []
   \<and> format_latest_prompt demo_env later_turn = Inr ''Rewrite: write a poem''
   \<and> stream later_turn
   \<and> fst (conversation_endpoint demo_env later_turn)
       = Inr (StreamingResponse (message later_turn) (history later_turn) ''text/event-stream'')
   \<and> adapter_calls (snd (conversation_endpoint demo_env later_turn)) = []"
proof -
  have h: "history later_turn \<noteq> []" by (simp add: later_turn_fields)
  have f: "format_latest_prompt demo_env later_turn = Inr ''Rewrite: write a poem''"
    by (simp add: later_turn_run)
  have s: "stream later_turn" by (simp add: later_turn_fields)
  from later_turn_uses_message [OF h, of demo_env]
  have "\<forall>f. format_latest_prompt demo_env later_turn = Inr f \<longrightarrow>
            (if stream later_turn
             then fst (conversation_endpoint demo_env later_turn)
                    = Inr (StreamingResponse (message later_turn) (history later_turn)
                            ''text/event-stream'')
             else adapter_calls (snd (conversation_endpoint demo_env later_turn))
                    = [generation_call (message later_turn) (history later_turn)])"
    by blast
  with f s have "fst (conversation_endpoint demo_env later_turn)
       = Inr (StreamingResponse (message later_turn) (history later_turn) ''text/event-stream'')"
    by simp
  with h f s later_turn_result(2) show ?thesis by blast
qed

text \<open>
  Claim C3. Every request, whatever its outcome, adds 1 to the request counter exactly
  once and records into the duration histogram exactly once, both under the label of the
  route; no exception of the stages skips the \<^verbatim>\<open>finally\<close> clause. Consuming a
  stream afterwards writes no further metric.
\<close>

theorem metrics_recorded_once:
  "counter_adds (snd (conversation_endpoint env data)) = [(1, route_label)]
   \<and> map snd (histogram_records (snd (conversation_endpoint env data))) = [route_label]
   \<and> counter_adds (fst (stream_generator env fp h)) = []
   \<and> histogram_records (fst (stream_generator env fp h)) = []"
  by (simp add: conversation_endpoint_obs stream_generator_alt stream_loop_obs)

theorem metrics_recorded_once_witness:
  "fst (conversation_endpoint failing_env first_turn)
     = Inl (HTTPException 500 ''An Error occurred: timeout'')
   \<and> counter_adds (snd (conversation_endpoint failing_env first_turn)) = [(1, route_label)]
   \<and> map snd (histogram_records (snd (conversation_endpoint failing_env first_turn)))
       = [route_label]"
  using metrics_recorded_once [of failing_env first_turn] failing_first_turn_result(1)
  by blast




text \<open>
  Claim C5. For every fragment sequence the streaming adapter produces, the chunks the
  generator yields are the contents that are present, in the adapter's order: an absent
  content yields nothing and the loop goes on, and nothing is reordered, dropped or
  repeated. This holds whether or not the sequence ends in an exception.
\<close>

theorem streaming_preserves_order:
  "delivered (fst (stream_generator env fprompt hist))
     = present_contents (fst (generate_response_stream env (generation_stream_call fprompt hist)))"
  by (simp add: stream_generator_alt stream_loop_delivered)

theorem streaming_preserves_order_witness:
  "delivered (fst (stream_generator demo_env ''tell me more'' [(''user'', ''hi'')]))
     = [''Once'', ''upon'']"
proof -
  have "present_contents [Fragment (Some ''Once''), Fragment None, Fragment (Some ''upon'')]
          = [''Once'', ''upon'']"
    by (simp add: present_contents_def)
  then show ?thesis
    using streaming_preserves_order [of demo_env "''tell me more''" "[(''user'', ''hi'')]"]
    by (simp add: later_turn_run)
qed

text \<open>
  Claim C6. On the buffered path, when an adapter call of the run raises, the handler
  raises \<^verbatim>\<open>HTTPException\<close> with status 500 and the detail
  \<^verbatim>\<open>An Error occurred: \<close> followed by the message of that exception; the failed
  call was made once and is the last call of the run (no retry). When the handler
  returns, the response is the dict with the one key \<^verbatim>\<open>response\<close> holding the
  output of the generation call, which is the last call of the run.
\<close>

theorem non_streaming_outcome:
  assumes "\<not> stream data"
  shows "(\<forall>c e. c \<in> set (adapter_calls (snd (conversation_endpoint env data)))
                 \<and> generate_response_non_stream env c = Inl e
            \<longrightarrow> fst (conversation_endpoint env data)
                  = Inl (HTTPException 500 (''An Error occurred: '' @ str_exn env e))
                \<and> count_list (adapter_calls (snd (conversation_endpoint env data))) c = 1
                \<and> last (adapter_calls (snd (conversation_endpoint env data))) = c)
       \<and> (\<forall>resp. fst (conversation_endpoint env data) = Inr resp
            \<longrightarrow> (\<exists>fp out.
                   adapter_calls (snd (conversation_endpoint env data)) \<noteq> []
                 \<and> last (adapter_calls (snd (conversation_endpoint env data)))
                     = generation_call fp (history data)
                 \<and> generate_response_non_stream env (generation_call fp (history data)) = Inr out
                 \<and> resp = Dict [(''response'', out)]))"
proof (cases "format_latest_prompt env data")
  case (Inl e)
  then show ?thesis by (simp add: endpoint_simps)
next
  case (Inr f)
  show ?thesis
  proof (cases "fst (step_1_enhance_prompt env data f)")
    case (Inl e1)
    with Inr assms show ?thesis
      by (auto simp: endpoint_simps split: sum.splits option.splits if_splits)
  next
    case step1: (Inr fp)
    have calls: "adapter_calls (snd (conversation_endpoint env data))
                   = adapter_calls (snd (step_1_enhance_prompt env data f))
                     @ [generation_call fp (history data)]"
      using Inr step1 assms
      by (simp add: conversation_endpoint_obs conversation_try_obs step_2_obs)
    have res: "fst (conversation_endpoint env data)
                 = (case generate_response_non_stream env (generation_call fp (history data)) of
                      Inl e \<Rightarrow> Inl (HTTPException 500 (''An Error occurred: '' @ str_exn env e))
                    | Inr r \<Rightarrow> Inr (Dict [(''response'', r)]))"
      using Inr step1 assms
      by (simp add: conversation_endpoint_fst conversation_try_fst step_2_fst non_streaming_fst
          split: sum.splits)
    have enh: "\<forall>c \<in> set (adapter_calls (snd (step_1_enhance_prompt env data f))).
                 (\<exists>r. generate_response_non_stream env c = Inr r)
                 \<and> c \<noteq> generation_call fp (history data)"
      using step1
      by (auto simp: step_1_fst step_1_obs enhance_prompt_fst enhance_prompt_obs
          enhancement_call_def generation_call_def
          split: sum.splits option.splits if_splits)
    show ?thesis
      using calls res enh by (auto split: sum.splits)
  qed
qed

theorem non_streaming_outcome_witness:
  "\<not> stream first_turn
   \<and> generation_call ''Better Rewrite: write a poem'' []
       \<in> set (adapter_calls (snd (conversation_endpoint failing_env first_turn)))
   \<and> generate_response_non_stream failing_env
         (generation_call ''Better Rewrite: write a poem'' [])
       = Inl (UpstreamError ''timeout'')
   \<and> fst (conversation_endpoint failing_env first_turn)
       = Inl (HTTPException 500 (''An Error occurred: '' @ str_exn failing_env (UpstreamError ''timeout'')))
   \<and> count_list (adapter_calls (snd (conversation_endpoint failing_env first_turn)))
        (generation_call ''Better Rewrite: write a poem'' []) = 1
   \<and> enhancement_call ''creative'' ''You are a poet'' ''Rewrite: write a poem''
       \<in> set (adapter_calls (snd (conversation_endpoint enhancer_down_env first_turn)))
   \<and> generate_response_non_stream enhancer_down_env
         (enhancement_call ''creative'' ''You are a poet'' ''Rewrite: write a poem'')
       = Inl (UpstreamError ''rate limited'')
   \<and> fst (conversation_endpoint enhancer_down_env first_turn)
       = Inl (HTTPException 500
               (''An Error occurred: '' @ str_exn enhancer_down_env (UpstreamError ''rate limited'')))
   \<and> last (adapter_calls (snd (conversation_endpoint enhancer_down_env first_turn)))
       = enhancement_call ''creative'' ''You are a poet'' ''Rewrite: write a poem''
   \<and> fst (conversation_endpoint demo_env first_turn)
       = Inr (Dict [(''response'', Text ''Answer to Better Rewrite: write a poem'')])"
proof -
  have h: "\<not> stream first_turn" by (simp add: first_turn_fields)
  have m: "generation_call ''Better Rewrite: write a poem'' []
             \<in> set (adapter_calls (snd (conversation_endpoint failing_env first_turn)))"
    by (simp add: failing_first_turn_result)
  have f: "generate_response_non_stream failing_env
             (generation_call ''Better Rewrite: write a poem'' [])
           = Inl (UpstreamError ''timeout'')"
    by (simp add: failing_first_turn_run)
  from non_streaming_outcome [OF h, of failing_env] m f
  have g: "fst (conversation_endpoint failing_env first_turn)
          = Inl (HTTPException 500 (''An Error occurred: '' @ str_exn failing_env (UpstreamError ''timeout'')))
      \<and> count_list (adapter_calls (snd (conversation_endpoint failing_env first_turn)))
          (generation_call ''Better Rewrite: write a poem'' []) = 1"
    by blast
  have m': "enhancement_call ''creative'' ''You are a poet'' ''Rewrite: write a poem''
             \<in> set (adapter_calls (snd (conversation_endpoint enhancer_down_env first_turn)))"
    by (simp add: enhancer_down_first_turn_result)
  have f': "generate_response_non_stream enhancer_down_env
             (enhancement_call ''creative'' ''You are a poet'' ''Rewrite: write a poem'')
           = Inl (UpstreamError ''rate limited'')"
    by (simp add: enhancer_down_first_turn_run)
  from non_streaming_outcome [OF h, of enhancer_down_env] m' f'
  have e: "fst (conversation_endpoint enhancer_down_env first_turn)
          = Inl (HTTPException 500
                  (''An Error occurred: '' @ str_exn enhancer_down_env (UpstreamError ''rate limited'')))
      \<and> last (adapter_calls (snd (conversation_endpoint enhancer_down_env first_turn)))
          = enhancement_call ''creative'' ''You are a poet'' ''Rewrite: write a poem''"
    by blast
  from h m f g m' f' e demo_first_turn_result(1) show ?thesis by blast
qed

text \<open>
  Claim C7. When the handler has returned a streaming response and the streaming
  adapter raises after some fragments, the generator ends with that exception, the
  contents of the fragments before it have all been yielded, the streaming adapter was
  called once, no single-shot call is made, and the handler's own result and events do
  not depend on the streaming adapter at all: the failure cannot become the handler's
  \<^verbatim>\<open>HTTPException\<close>.
\<close>

theorem mid_stream_failure_is_terminal:
  assumes "fst (conversation_endpoint env data) = Inr (StreamingResponse fp h mt)"
    and "generate_response_stream env (generation_stream_call fp h) = (frs, Some e)"
  shows "stream data \<and> h = history data \<and> mt = ''text/event-stream''
       \<and> snd (stream_generator env fp h) = Some e
       \<and> delivered (fst (stream_generator env fp h)) = present_contents frs
       \<and> stream_calls (fst (stream_generator env fp h)) = [generation_stream_call fp h]
       \<and> adapter_calls (fst (stream_generator env fp h)) = []
       \<and> (\<forall>g. conversation_endpoint (env\<lparr>generate_response_stream := g\<rparr>) data
                = conversation_endpoint env data)"
proof -
  have a: "stream data \<and> h = history data \<and> mt = ''text/event-stream''"
    using assms(1)
    by (auto simp: endpoint_simps split: sum.splits if_splits)
  have b: "stream_generator env fp h
             = (StreamCall (generation_stream_call fp h) # stream_loop 0 frs, Some e)"
    using assms(2) by (simp add: stream_generator_alt)
  have c: "conversation_endpoint (env\<lparr>generate_response_stream := g\<rparr>) data
                = conversation_endpoint env data" for g
    by (simp add: handler_ignores_stream_adapter)
  show ?thesis
    using a b c by (simp add: stream_loop_delivered stream_loop_obs)
qed

theorem mid_stream_failure_is_terminal_witness:
  "fst (conversation_endpoint failing_env later_turn)
     = Inr (StreamingResponse ''tell me more'' [(''user'', ''hi'')] ''text/event-stream'')
   \<and> generate_response_stream failing_env
         (generation_stream_call ''tell me more'' [(''user'', ''hi'')])
       = ([Fragment (Some ''Once''), Fragment (Some ''upon'')],
          Some (UpstreamError ''connection reset''))
   \<and> delivered (fst (stream_generator failing_env ''tell me more'' [(''user'', ''hi'')]))
       = [''Once'', ''upon'']
   \<and> snd (stream_generator failing_env ''tell me more'' [(''user'', ''hi'')])
       = Some (UpstreamError ''connection reset'')
   \<and> stream_calls (fst (stream_generator failing_env ''tell me more'' [(''user'', ''hi'')]))
       = [generation_stream_call ''tell me more'' [(''user'', ''hi'')]]"
proof -
  have h1: "fst (conversation_endpoint failing_env later_turn)
     = Inr (StreamingResponse ''tell me more'' [(''user'', ''hi'')] ''text/event-stream'')"
    by (simp add: later_turn_result)
  have h2: "generate_response_stream failing_env
         (generation_stream_call ''tell me more'' [(''user'', ''hi'')])
       = ([Fragment (Some ''Once''), Fragment (Some ''upon'')],
          Some (UpstreamError ''connection reset''))"
    by (simp add: later_turn_run)
  have p: "present_contents [Fragment (Some ''Once''), Fragment (Some ''upon'')]
             = [''Once'', ''upon'']"
    by (simp add: present_contents_def)
  note r = mid_stream_failure_is_terminal [OF h1 h2]
  from r have "delivered (fst (stream_generator failing_env ''tell me more'' [(''user'', ''hi'')]))
       = present_contents [Fragment (Some ''Once''), Fragment (Some ''upon'')]"
    by blast
  with p have d: "delivered (fst (stream_generator failing_env ''tell me more'' [(''user'', ''hi'')]))
       = [''Once'', ''upon'']"
    by simp
  from r h1 h2 d show ?thesis by blast
qed

text \<open>
  Claim C8, as amended. Every request opens the root span \<^verbatim>\<open>processors\<close> first
  and closes it last. A request whose template formats then opens
  \<^verbatim>\<open>step-1-enhance_prompt\<close>, and one whose step 1 raises nothing opens
  \<^verbatim>\<open>step-2-generate_response\<close>; no other span is opened. Each of the two is
  started as the current span inside the root span's block, so the root span is its
  parent, and it carries an explicit link to the root span's context as well. A request
  that returns a response has opened all three.
\<close>

theorem step_spans_linked_to_root:
  "spans_started (snd (conversation_endpoint env data))
     = (''processors'', None, [])
       # (case format_latest_prompt env data of
            Inl e \<Rightarrow> []
          | Inr f \<Rightarrow>
              (''step-1-enhance_prompt'', Some ''processors'', [''processors''])
              # (case fst (step_1_enhance_prompt env data f) of
                   Inl e \<Rightarrow> []
                 | Inr fp \<Rightarrow>
                     [(''step-2-generate_response'', Some ''processors'', [''processors''])]))
   \<and> hd (snd (conversation_endpoint env data)) = SpanStart ''processors'' None []
   \<and> last (snd (conversation_endpoint env data)) = SpanEnd ''processors''
   \<and> (\<forall>resp. fst (conversation_endpoint env data) = Inr resp \<longrightarrow>
        spans_started (snd (conversation_endpoint env data))
          = [(''processors'', None, []),
             (''step-1-enhance_prompt'', Some ''processors'', [''processors'']),
             (''step-2-generate_response'', Some ''processors'', [''processors''])])"
proof -
  have "hd (snd (conversation_endpoint env data)) = SpanStart ''processors'' None []"
       "last (snd (conversation_endpoint env data)) = SpanEnd ''processors''"
    by (simp_all add: conversation_endpoint_alt)
  then show ?thesis
    by (auto simp: conversation_endpoint_fst conversation_endpoint_obs conversation_try_fst
        conversation_try_obs split: sum.splits)
qed

text \<open>
  The claim as stated fails in three ways: the step spans are named with an underscore,
  not with the hyphenated names of the claim; both have the root span as their parent,
  besides the link; and a request with an unknown prompt type opens the root span only.
\<close>

theorem span_names_use_underscore:
  "spans_started (snd (conversation_endpoint demo_env first_turn))
     = [(''processors'', None, []),
        (''step-1-enhance_prompt'', Some ''processors'', [''processors'']),
        (''step-2-generate_response'', Some ''processors'', [''processors''])]
   \<and> ''step-1-enhance-prompt''
       \<notin> set (map fst (spans_started (snd (conversation_endpoint demo_env first_turn))))
   \<and> ''step-2-generate-response''
       \<notin> set (map fst (spans_started (snd (conversation_endpoint demo_env first_turn))))
   \<and> map (fst \<circ> snd) (spans_started (snd (conversation_endpoint demo_env first_turn)))
       = [None, Some ''processors'', Some ''processors'']
   \<and> spans_started (snd (conversation_endpoint demo_env unknown_type_turn))
       = [(''processors'', None, [])]"
  by (simp add: demo_first_turn_result unknown_type_turn_result)

theorem step_spans_linked_to_root_witness:
  "fst (conversation_endpoint demo_env first_turn)
     = Inr (Dict [(''response'', Text ''Answer to Better Rewrite: write a poem'')])
   \<and> spans_started (snd (conversation_endpoint demo_env first_turn))
       = [(''processors'', None, []),
          (''step-1-enhance_prompt'', Some ''processors'', [''processors'']),
          (''step-2-generate_response'', Some ''processors'', [''processors''])]
   \<and> hd (snd (conversation_endpoint demo_env first_turn)) = SpanStart ''processors'' None []
   \<and> last (snd (conversation_endpoint demo_env first_turn)) = SpanEnd ''processors''"
  using step_spans_linked_to_root [of demo_env first_turn] demo_first_turn_result(1)
  by blast

text \<open>
  Claim C9. The value recorded into the duration histogram is \<^verbatim>\<open>total_duration\<close> as
  it was initialised, so exactly one value is recorded and it is 0, on every exit path.
\<close>

theorem recorded_duration_is_zero:
  "map fst (histogram_records (snd (conversation_endpoint env data))) = [0]"
  by (simp add: conversation_endpoint_obs)

theorem recorded_duration_is_zero_witness:
  "map fst (histogram_records (snd (conversation_endpoint failing_env first_turn))) = [0]
   \<and> map fst (histogram_records (snd (conversation_endpoint demo_env later_turn))) = [0]"
  using recorded_duration_is_zero [of failing_env first_turn]
    recorded_duration_is_zero [of demo_env later_turn]
  by blast

text \<open>
  Claim C10. The template lookup and its formatting with the latest prompt are
  evaluated before either stage, on first and later turns alike. When the prompt type is
  not a key of \<^verbatim>\<open>PROMPT_TEMPLATES\<close>, and when the template applied to the latest
  prompt raises, the request fails with the message of that exception, only the root
  span has been opened and no adapter call has been made; step 1 starts only when the
  template has returned. The theorem makes no assumption on the history, so an unknown
  prompt type fails a later turn too, where the formatted prompt would not be used.
\<close>

theorem formatting_precedes_stages:
  "(PROMPT_TEMPLATES env (prompt_type data) = None \<longrightarrow>
        fst (conversation_endpoint env data)
          = Inl (HTTPException 500 (''An Error occurred: '' @ py_repr env (prompt_type data)))
      \<and> spans_started (snd (conversation_endpoint env data)) = [(''processors'', None, [])]
      \<and> adapter_calls (snd (conversation_endpoint env data)) = [])
   \<and> (\<forall>t e. PROMPT_TEMPLATES env (prompt_type data) = Some t
              \<and> t (latest_prompt data) = Inl e \<longrightarrow>
        fst (conversation_endpoint env data)
          = Inl (HTTPException 500 (''An Error occurred: '' @ str_exn env e))
      \<and> spans_started (snd (conversation_endpoint env data)) = [(''processors'', None, [])]
      \<and> adapter_calls (snd (conversation_endpoint env data)) = [])
   \<and> (\<forall>t f. PROMPT_TEMPLATES env (prompt_type data) = Some t
              \<and> t (latest_prompt data) = Inr f \<longrightarrow>
        take 2 (spans_started (snd (conversation_endpoint env data)))
          = [(''processors'', None, []),
             (''step-1-enhance_prompt'', Some ''processors'', [''processors''])])"
proof (intro conjI allI impI)
  assume "PROMPT_TEMPLATES env (prompt_type data) = None"
  then have "format_latest_prompt env data = Inl (KeyError (prompt_type data))"
    by (simp add: format_latest_prompt_def)
  then show "fst (conversation_endpoint env data)
          = Inl (HTTPException 500 (''An Error occurred: '' @ py_repr env (prompt_type data)))"
    and "spans_started (snd (conversation_endpoint env data)) = [(''processors'', None, [])]"
    and "adapter_calls (snd (conversation_endpoint env data)) = []"
    by (simp_all add: endpoint_simps)
next
  fix t e
  assume "PROMPT_TEMPLATES env (prompt_type data) = Some t \<and> t (latest_prompt data) = Inl e"
  then have "format_latest_prompt env data = Inl e"
    by (simp add: format_latest_prompt_def)
  then show "fst (conversation_endpoint env data)
          = Inl (HTTPException 500 (''An Error occurred: '' @ str_exn env e))"
    and "spans_started (snd (conversation_endpoint env data)) = [(''processors'', None, [])]"
    and "adapter_calls (snd (conversation_endpoint env data)) = []"
    by (simp_all add: endpoint_simps)
next
  fix t f
  assume "PROMPT_TEMPLATES env (prompt_type data) = Some t \<and> t (latest_prompt data) = Inr f"
  then have "format_latest_prompt env data = Inr f"
    by (simp add: format_latest_prompt_def)
  then show "take 2 (spans_started (snd (conversation_endpoint env data)))
          = [(''processors'', None, []),
             (''step-1-enhance_prompt'', Some ''processors'', [''processors''])]"
    by (simp add: conversation_endpoint_obs conversation_try_obs)
qed

theorem formatting_precedes_stages_witness:
  "history unknown_later_turn \<noteq> []
   \<and> PROMPT_TEMPLATES demo_env (prompt_type unknown_later_turn) = None
   \<and> fst (conversation_endpoint demo_env unknown_later_turn)
       = Inl (HTTPException 500
               (''An Error occurred: '' @ py_repr demo_env (prompt_type unknown_later_turn)))
   \<and> spans_started (snd (conversation_endpoint demo_env unknown_later_turn))
       = [(''processors'', None, [])]
   \<and> adapter_calls (snd (conversation_endpoint demo_env unknown_later_turn)) = []
   \<and> history later_turn \<noteq> []
   \<and> PROMPT_TEMPLATES raising_template_env (prompt_type later_turn)
       = Some (\<lambda>p. Inl (KeyError ''topic''))
   \<and> fst (conversation_endpoint raising_template_env later_turn)
       = Inl (HTTPException 500
               (''An Error occurred: '' @ str_exn raising_template_env (KeyError ''topic'')))
   \<and> str_exn raising_template_env (KeyError ''topic'') = [CHR 0x27] @ ''topic'' @ [CHR 0x27]
   \<and> spans_started (snd (conversation_endpoint raising_template_env later_turn))
       = [(''processors'', None, [])]
   \<and> adapter_calls (snd (conversation_endpoint raising_template_env later_turn)) = []
   \<and> PROMPT_TEMPLATES demo_env (prompt_type later_turn) = Some (\<lambda>p. Inr (''Rewrite: '' @ p))
   \<and> take 2 (spans_started (snd (conversation_endpoint demo_env later_turn)))
       = [(''processors'', None, []),
          (''step-1-enhance_prompt'', Some ''processors'', [''processors''])]"
proof -
  have n1: "history unknown_later_turn \<noteq> []"
    and n2: "history later_turn \<noteq> []"
    by (simp_all add: unknown_later_turn_run later_turn_fields)
  have u: "PROMPT_TEMPLATES demo_env (prompt_type unknown_later_turn) = None"
    by (simp add: unknown_later_turn_run unknown_type_turn_run)
  have r: "PROMPT_TEMPLATES raising_template_env (prompt_type later_turn)
             = Some (\<lambda>p. Inl (KeyError ''topic''))"
    by (simp add: raising_template_env_def later_turn_def)
  have r': "(\<lambda>p. Inl (KeyError ''topic'') :: exn + string) (latest_prompt later_turn)
              = Inl (KeyError ''topic'')"
    by simp
  have m: "str_exn raising_template_env (KeyError ''topic'') = [CHR 0x27] @ ''topic'' @ [CHR 0x27]"
    by (simp add: raising_template_run)
  have d: "PROMPT_TEMPLATES demo_env (prompt_type later_turn)
             = Some (\<lambda>p. Inr (''Rewrite: '' @ p))"
    by (simp add: demo_env_def later_turn_def)
  have d': "(\<lambda>p. Inr (''Rewrite: '' @ p) :: exn + string) (latest_prompt later_turn)
              = Inr (''Rewrite: '' @ latest_prompt later_turn)"
    by simp
  from formatting_precedes_stages [of demo_env unknown_later_turn] u
  have 1: "fst (conversation_endpoint demo_env unknown_later_turn)
       = Inl (HTTPException 500
               (''An Error occurred: '' @ py_repr demo_env (prompt_type unknown_later_turn)))
   \<and> spans_started (snd (conversation_endpoint demo_env unknown_later_turn))
       = [(''processors'', None, [])]
   \<and> adapter_calls (snd (conversation_endpoint demo_env unknown_later_turn)) = []"
    by blast
  from formatting_precedes_stages [of raising_template_env later_turn] r r'
  have 2: "fst (conversation_endpoint raising_template_env later_turn)
       = Inl (HTTPException 500
               (''An Error occurred: '' @ str_exn raising_template_env (KeyError ''topic'')))
   \<and> spans_started (snd (conversation_endpoint raising_template_env later_turn))
       = [(''processors'', None, [])]
   \<and> adapter_calls (snd (conversation_endpoint raising_template_env later_turn)) = []"
    by blast
  from formatting_precedes_stages [of demo_env later_turn] d d'
  have 3: "take 2 (spans_started (snd (conversation_endpoint demo_env later_turn)))
       = [(''processors'', None, []),
          (''step-1-enhance_prompt'', Some ''processors'', [''processors''])]"
    by blast
  from n1 n2 u r m d 1 2 3 show ?thesis by blast
qed

end
